theory Spec2Isabelle
  imports Main "HOL-Library.Word"
begin

section \<open>Userspace driver facades of apps/libs/firestorm.c\<close>

text \<open>
  The library turns the kernel's asynchronous system calls (allow, subscribe, command)
  into console, timer, SPI and serialization calls. The model passes the process state
  explicitly and records everything a call does in a trace, so that the order of the
  system calls, of the heap operations and of the callback executions can be stated.
\<close>

subsection \<open>Values\<close>

text \<open>
  Pointers are abstract addresses with 0 for NULL. \<open>uint32_t\<close>, \<open>size_t\<close> and \<open>int\<close>
  are 32-bit words of the Cortex-M target; an \<open>int\<close> is negative when its word is
  negative as a two's complement number (\<open>r <s 0\<close>). Driver, operation and event numbers
  are the literals of the source.
\<close>

type_synonym addr = nat
type_synonym byte = "8 word"
type_synonym word32 = "32 word"

text \<open>
  Modelled from the spec: the enumeration \<open>CB_TYPE\<close> is declared in a header
  (firestorm.h or tock.h), not in firestorm.c. The specification describes it as a
  closed, finite enumeration of completion tags, one per class of asynchronous
  operation; firestorm.c names three of its members. \<open>OTHER\<close> stands for the
  remaining members.
\<close>

datatype cb_type = PUTSTR | DELAY | SPIBUF | OTHER nat

text \<open>
  A value of the function pointer type \<open>subscribe_cb\<close>: one of the three callbacks that
  firestorm.c defines, or a callback of the application. An application callback has
  side effects of its own; it is given by the tag it yields and the pointers it passes
  to \<open>free\<close>, in order. What else it does to its own variables is not part of the
  process state of this model.
\<close>

datatype subscribe_cb = CB_putstr | CB_delay | CB_spi | CB_app cb_type "addr list"

datatype syscall =
    Allow nat nat addr word32
  | Subscribe nat nat subscribe_cb addr
  | Command nat nat word32

datatype event =
    E_malloc word32 addr
  | E_strncpy addr "byte list"
  | E_free addr
  | E_sys syscall word32
  | E_wait cb_type
  | E_invoke subscribe_cb addr
  | E_yield cb_type

datatype fault = Invalid_read | Invalid_write addr | Invalid_free addr

text \<open>An upcall the kernel will deliver: driver, event and the three integer arguments.\<close>

datatype delivery = Delivery nat nat word32 word32 word32

text \<open>
  The state of the process: the live heap blocks with their contents, the last address
  \<open>malloc\<close> handed out, the bytes the heap has left, the callback and user data
  registered for each (driver, event) pair, the upcalls the kernel is going to deliver,
  and the trace of what the process has done.
\<close>

record state =
  heap :: "(addr \<times> byte list) list"
  brk :: addr
  heap_avail :: nat
  subs :: "((nat \<times> nat) \<times> subscribe_cb \<times> addr) list"
  pending :: "delivery list"
  trace :: "event list"

text \<open>
  The kernel is a parameter: it answers a system call with an \<open>int\<close>, and the answer may
  depend on everything the process did before.
\<close>

type_synonym kernel = "event list \<Rightarrow> syscall \<Rightarrow> word32"

definition log :: "event \<Rightarrow> state \<Rightarrow> state" where
  "log e s = s\<lparr>trace := trace s @ [e]\<rparr>"

subsection \<open>The C library: malloc, free, strncpy, strlen\<close>

text \<open>
  \<open>malloc\<close> hands out a block at an address never used before, or NULL when the heap
  has fewer bytes left than requested. The bytes of a fresh block are indeterminate in
  C; they are zero here and \<open>strncpy\<close> overwrites all of them before anything reads them.
\<close>

definition malloc :: "word32 \<Rightarrow> state \<Rightarrow> addr \<times> state" where
  "malloc n s =
     (if unat n \<le> heap_avail s
      then (Suc (brk s),
            log (E_malloc n (Suc (brk s)))
              (s\<lparr>heap := ((Suc (brk s), replicate (unat n) 0) # heap s),
                 brk := Suc (brk s),
                 heap_avail := heap_avail s - unat n\<rparr>))
      else (0, log (E_malloc n 0) s))"

text \<open>
  \<open>free\<close> of NULL does nothing; \<open>free\<close> of a pointer that is not a live block (a second
  free of the same block, for one) is undefined behaviour, a fault of the model.
\<close>

definition free :: "addr \<Rightarrow> state \<Rightarrow> fault + state" where
  "free p s =
     (if p = 0 then Inr s
      else case map_of (heap s) p of
             None \<Rightarrow> Inl (Invalid_free p)
           | Some blk \<Rightarrow>
               Inr (log (E_free p)
                      (s\<lparr>heap := filter (\<lambda>e. fst e \<noteq> p) (heap s),
                         heap_avail := heap_avail s + length blk\<rparr>)))"

text \<open>
  The bytes \<open>strncpy\<close> writes for a source object \<open>src\<close> and a count \<open>n\<close>: the characters
  before the first NUL, at most \<open>n\<close> of them, padded with NUL up to \<open>n\<close>. Reading past
  the end of a source without a NUL is undefined.
\<close>

definition strncpy_bytes :: "byte list \<Rightarrow> nat \<Rightarrow> byte list option" where
  "strncpy_bytes src n =
     (let str = takeWhile (\<lambda>c. c \<noteq> 0) src in
      if n \<le> length str then Some (take n str)
      else if length str < length src then Some (str @ replicate (n - length str) 0)
      else None)"

definition strncpy :: "addr \<Rightarrow> byte list \<Rightarrow> word32 \<Rightarrow> state \<Rightarrow> fault + state" where
  "strncpy dst src n s =
     (if dst = 0 then Inl (Invalid_write dst)
      else case map_of (heap s) dst of
        None \<Rightarrow> Inl (Invalid_write dst)
      | Some blk \<Rightarrow>
          if length blk < unat n then Inl (Invalid_write dst)
          else (case strncpy_bytes src (unat n) of
                  None \<Rightarrow> Inl Invalid_read
                | Some bs \<Rightarrow>
                    Inr (log (E_strncpy dst bs)
                           (s\<lparr>heap := ((dst, bs @ drop (unat n) blk)
                                         # filter (\<lambda>e. fst e \<noteq> dst) (heap s))\<rparr>))))"

definition strlen :: "byte list \<Rightarrow> nat option" where
  "strlen src =
     (let str = takeWhile (\<lambda>c. c \<noteq> 0) src in
      if length str < length src then Some (length str) else None)"

subsection \<open>The system calls\<close>

text \<open>
  Modelled from the spec: \<open>allow\<close> is declared in tock.h and implemented in the system
  call library, not in firestorm.c. It hands a buffer's address and length to a driver
  operation and returns the kernel's integer, negative for an error, without suspending
  the caller.
\<close>

definition allow :: "kernel \<Rightarrow> nat \<Rightarrow> nat \<Rightarrow> addr \<Rightarrow> word32 \<Rightarrow> state \<Rightarrow> word32 \<times> state" where
  "allow K d opn p n s =
     (let r = K (trace s) (Allow d opn p n) in (r, log (E_sys (Allow d opn p n) r) s))"

text \<open>
  Modelled from the spec: \<open>command\<close> is declared in tock.h and implemented in the
  system call library, not in firestorm.c. It triggers a driver operation with an
  integer argument and returns the kernel's integer, negative for an error, without
  suspending the caller.
\<close>

definition command :: "kernel \<Rightarrow> nat \<Rightarrow> nat \<Rightarrow> word32 \<Rightarrow> state \<Rightarrow> word32 \<times> state" where
  "command K d opn a s =
     (let r = K (trace s) (Command d opn a) in (r, log (E_sys (Command d opn a) r) s))"

text \<open>
  Modelled from the spec: \<open>subscribe\<close> is declared in tock.h and implemented in the
  system call library, not in firestorm.c. It returns the kernel's integer, negative
  for an error, without suspending the caller. A successful subscribe installs the
  callback and its user data for the (driver, event) pair, replacing the registration
  that was there; a failed one installs nothing.
\<close>

definition subscribe ::
  "kernel \<Rightarrow> nat \<Rightarrow> nat \<Rightarrow> subscribe_cb \<Rightarrow> addr \<Rightarrow> state \<Rightarrow> word32 \<times> state" where
  "subscribe K d ev cb ud s =
     (let r = K (trace s) (Subscribe d ev cb ud);
          s1 = log (E_sys (Subscribe d ev cb ud) r) s
      in if r <s 0 then (r, s1)
         else (r, s1\<lparr>subs :=
                       (((d, ev), cb, ud) # filter (\<lambda>e. fst e \<noteq> (d, ev)) (subs s1))\<rparr>))"

subsection \<open>The callbacks of firestorm.c\<close>

definition putstr_cb ::
  "word32 \<Rightarrow> word32 \<Rightarrow> word32 \<Rightarrow> addr \<Rightarrow> state \<Rightarrow> fault + cb_type \<times> state" where
  "putstr_cb x y z str s =
     (case free str s of Inl f \<Rightarrow> Inl f | Inr s1 \<Rightarrow> Inr (PUTSTR, s1))"

definition delay_cb :: "state \<Rightarrow> fault + cb_type \<times> state" where
  "delay_cb s = Inr (DELAY, s)"

definition spi_cb ::
  "word32 \<Rightarrow> word32 \<Rightarrow> word32 \<Rightarrow> addr \<Rightarrow> state \<Rightarrow> fault + cb_type \<times> state" where
  "spi_cb unused0 unused1 unused2 ud s = Inr (SPIBUF, s)"

text \<open>The releases of an application callback, one after the other.\<close>

fun free_all :: "addr list \<Rightarrow> state \<Rightarrow> fault + state" where
  "free_all [] s = Inr s"
| "free_all (p # ps) s = (case free p s of Inl f \<Rightarrow> Inl f | Inr s1 \<Rightarrow> free_all ps s1)"

text \<open>Calling through a \<open>subscribe_cb\<close> pointer.\<close>

fun run_cb ::
  "subscribe_cb \<Rightarrow> word32 \<Rightarrow> word32 \<Rightarrow> word32 \<Rightarrow> addr \<Rightarrow> state \<Rightarrow> fault + cb_type \<times> state"
where
  "run_cb CB_putstr x y z ud s = putstr_cb x y z ud s"
| "run_cb CB_delay x y z ud s = delay_cb s"
| "run_cb CB_spi x y z ud s = spi_cb x y z ud s"
| "run_cb (CB_app t ps) x y z ud s =
     (case free_all ps s of Inl f \<Rightarrow> Inl f | Inr s1 \<Rightarrow> Inr (t, s1))"

subsection \<open>The blocking wait\<close>

text \<open>
  Modelled from the spec: the dispatch loop of \<open>wait_for\<close>, which is declared in tock.h
  and implemented in the system call library, not in firestorm.c. It services the
  kernel's upcalls one at a time, in the order of delivery: it takes the next one, runs
  the callback registered for its driver and event with the delivered arguments and the
  registered user data, and returns once a callback has yielded the tag waited for. A
  callback that yields another tag runs to completion and the wait goes on. An upcall
  for a driver event without a registration runs nothing. When none of the upcalls the
  kernel is going to deliver ends the wait, the call never returns, which is the
  result \<open>None\<close>.
\<close>

fun wait_loop :: "cb_type \<Rightarrow> delivery list \<Rightarrow> state \<Rightarrow> (fault + state) option" where
  "wait_loop t [] s = None"
| "wait_loop t (Delivery d ev x y z # ds) s =
     (case map_of (subs s) (d, ev) of
        None \<Rightarrow> wait_loop t ds (s\<lparr>pending := ds\<rparr>)
      | Some (cb, ud) \<Rightarrow>
          (case run_cb cb x y z ud (log (E_invoke cb ud) (s\<lparr>pending := ds\<rparr>)) of
             Inl f \<Rightarrow> Some (Inl f)
           | Inr (t', s1) \<Rightarrow>
               if t' = t then Some (Inr (log (E_yield t') s1))
               else wait_loop t ds (log (E_yield t') s1)))"

text \<open>
  Modelled from the spec: \<open>wait_for\<close> (tock.h, not in firestorm.c) suspends the caller
  and runs the dispatch loop on the pending upcalls until a callback yields the tag.
\<close>

definition wait_for :: "cb_type \<Rightarrow> state \<Rightarrow> (fault + state) option" where
  "wait_for t s = wait_loop t (pending s) (log (E_wait t) s)"

subsection \<open>Console\<close>

definition putnstr_async ::
  "kernel \<Rightarrow> addr \<Rightarrow> word32 \<Rightarrow> subscribe_cb \<Rightarrow> addr \<Rightarrow> state \<Rightarrow> state" where
  "putnstr_async K str len cb userdata s =
     (let (r1, s1) = allow K 0 1 str len s;
          (r2, s2) = subscribe K 0 1 cb userdata s1
      in s2)"

text \<open>
  \<open>putnstr\<close> reads the caller's characters, so its first argument is the object the
  pointer \<open>str\<close> points to.
\<close>

definition putnstr :: "kernel \<Rightarrow> byte list \<Rightarrow> word32 \<Rightarrow> state \<Rightarrow> (fault + state) option" where
  "putnstr K str len s =
     (let (buf, s1) = malloc len s in
      case strncpy buf str len s1 of
        Inl f \<Rightarrow> Some (Inl f)
      | Inr s2 \<Rightarrow> wait_for PUTSTR (putnstr_async K buf len CB_putstr buf s2))"

definition putstr :: "kernel \<Rightarrow> byte list \<Rightarrow> state \<Rightarrow> (fault + state) option" where
  "putstr K str s =
     (case strlen str of
        None \<Rightarrow> Some (Inl Invalid_read)
      | Some n \<Rightarrow> putnstr K str (of_nat n) s)"

subsection \<open>Timer\<close>

definition timer_subscribe :: "kernel \<Rightarrow> subscribe_cb \<Rightarrow> addr \<Rightarrow> state \<Rightarrow> word32 \<times> state" where
  "timer_subscribe K cb userdata s = subscribe K 3 0 cb userdata s"

definition timer_oneshot :: "kernel \<Rightarrow> word32 \<Rightarrow> state \<Rightarrow> word32 \<times> state" where
  "timer_oneshot K interval s = command K 3 0 interval s"

definition timer_start_repeating :: "kernel \<Rightarrow> word32 \<Rightarrow> state \<Rightarrow> word32 \<times> state" where
  "timer_start_repeating K interval s = command K 3 1 interval s"

definition delay_ms :: "kernel \<Rightarrow> word32 \<Rightarrow> state \<Rightarrow> (fault + state) option" where
  "delay_ms K ms s =
     (let (r1, s1) = timer_subscribe K CB_delay 0 s;
          (r2, s2) = timer_oneshot K ms s1
      in wait_for DELAY s2)"

subsection \<open>SPI\<close>

definition spi_write_byte :: "kernel \<Rightarrow> byte \<Rightarrow> state \<Rightarrow> word32 \<times> state" where
  "spi_write_byte K b s = command K 4 0 (ucast b) s"

definition spi_read_buf :: "kernel \<Rightarrow> addr \<Rightarrow> word32 \<Rightarrow> state \<Rightarrow> word32 \<times> state" where
  "spi_read_buf K str len s = allow K 4 0 str len s"

definition spi_write ::
  "kernel \<Rightarrow> addr \<Rightarrow> word32 \<Rightarrow> subscribe_cb \<Rightarrow> state \<Rightarrow> word32 \<times> state" where
  "spi_write K str len cb s =
     (let (err, s1) = allow K 4 1 str len s in
      if err <s 0 then (err, s1)
      else let (err2, s2) = subscribe K 4 0 cb 0 s1 in
           if err2 <s 0 then (err2, s2)
           else command K 4 1 len s2)"

definition spi_read_write ::
  "kernel \<Rightarrow> addr \<Rightarrow> addr \<Rightarrow> word32 \<Rightarrow> subscribe_cb \<Rightarrow> state \<Rightarrow> word32 \<times> state" where
  "spi_read_write K wr rd len cb s =
     (let (err, s1) = allow K 4 0 rd len s in
      if err <s 0 then (err, s1)
      else spi_write K wr len cb s1)"

definition spi_block_write :: "kernel \<Rightarrow> addr \<Rightarrow> word32 \<Rightarrow> state \<Rightarrow> word32 \<times> state" where
  "spi_block_write K str len s = spi_write K str len CB_spi s"

subsection \<open>Serialization to the nRF51822\<close>

definition nrf51822_serialization_subscribe :: "kernel \<Rightarrow> subscribe_cb \<Rightarrow> state \<Rightarrow> state" where
  "nrf51822_serialization_subscribe K cb s = snd (subscribe K 5 0 cb 0 s)"

definition nrf51822_serialization_setup_rx_buffer ::
  "kernel \<Rightarrow> addr \<Rightarrow> word32 \<Rightarrow> state \<Rightarrow> state" where
  "nrf51822_serialization_setup_rx_buffer K rx rx_len s = snd (allow K 5 0 rx rx_len s)"

definition nrf51822_serialization_write :: "kernel \<Rightarrow> addr \<Rightarrow> word32 \<Rightarrow> state \<Rightarrow> state" where
  "nrf51822_serialization_write K tx tx_len s =
     (let (r1, s1) = allow K 5 1 tx tx_len s;
          (r2, s2) = command K 5 0 0 s1
      in s2)"

subsection \<open>Reading a trace\<close>

text \<open>The driver numbers of the system calls in a trace, in order.\<close>

fun driver_of :: "syscall \<Rightarrow> nat" where
  "driver_of (Allow d opn p n) = d"
| "driver_of (Subscribe d ev cb ud) = d"
| "driver_of (Command d opn a) = d"

fun drivers :: "event list \<Rightarrow> nat list" where
  "drivers [] = []"
| "drivers (E_sys c r # es) = driver_of c # drivers es"
| "drivers (e # es) = drivers es"

text \<open>The addresses released in a trace, in order.\<close>

fun freed :: "event list \<Rightarrow> addr list" where
  "freed [] = []"
| "freed (E_free p # es) = p # freed es"
| "freed (e # es) = freed es"

text \<open>The tag a callback yields when it returns (lemma \<open>run_cb_effect\<close>).\<close>

fun cb_tag :: "subscribe_cb \<Rightarrow> cb_type" where
  "cb_tag CB_putstr = PUTSTR"
| "cb_tag CB_delay = DELAY"
| "cb_tag CB_spi = SPIBUF"
| "cb_tag (CB_app t ps) = t"

text \<open>
  The pointers a callback passes to \<open>free\<close> when it runs with the user data \<open>ud\<close>
  (lemma \<open>run_cb_effect\<close>).
\<close>

fun cb_frees :: "subscribe_cb \<Rightarrow> addr \<Rightarrow> addr list" where
  "cb_frees CB_putstr ud = [ud]"
| "cb_frees CB_delay ud = []"
| "cb_frees CB_spi ud = []"
| "cb_frees (CB_app t ps) ud = ps"


subsection \<open>Concrete kernels and states\<close>

text \<open>The process right after loading, with the upcalls the kernel is going to deliver.\<close>

definition boot :: "delivery list \<Rightarrow> state" where
  "boot q = \<lparr>heap = [], brk = 0, heap_avail = 4096, subs = [], pending = q, trace = []\<rparr>"

text \<open>A kernel that accepts every call.\<close>

definition kernel_ok :: kernel where
  "kernel_ok h c = 0"

text \<open>A kernel that refuses every call with the error code -1.\<close>

definition kernel_refuse :: kernel where
  "kernel_refuse h c = - 1"

text \<open>A kernel that refuses every allow with the error code -3.\<close>

definition kernel_no_allow :: kernel where
  "kernel_no_allow h c = (case c of Allow d opn p n \<Rightarrow> - 3 | _ \<Rightarrow> 0)"



text \<open>A process whose heap holds one block, at address 1, and the same process after
  the block was released.\<close>

definition one_block :: state where
  "one_block = \<lparr>heap = [(1, [104, 105])], brk = 1, heap_avail = 4094, subs = [],
                pending = [], trace = []\<rparr>"

definition block_released :: state where
  "block_released = \<lparr>heap = [], brk = 1, heap_avail = 4096, subs = [],
                     pending = [], trace = [E_free 1]\<rparr>"

text \<open>
  A process with a live block registered as the user data of \<open>putstr_cb\<close>, a timer
  subscription, and two upcalls on their way: the console's first, the timer's second.
\<close>

definition interleaved :: state where
  "interleaved = \<lparr>heap = [(1, [104, 105])], brk = 1, heap_avail = 4094,
                  subs = [((3, 0), CB_delay, 0), ((0, 1), CB_putstr, 1)],
                  pending = [Delivery 0 1 2 0 0, Delivery 3 0 0 0 0],
                  trace = []\<rparr>"


section \<open>Basic facts\<close>

lemma log_simps [simp]:
  "trace (log e s) = trace s @ [e]"
  "heap (log e s) = heap s"
  "brk (log e s) = brk s"
  "heap_avail (log e s) = heap_avail s"
  "subs (log e s) = subs s"
  "pending (log e s) = pending s"
  by (simp_all add: log_def)

lemma allow_eq:
  "allow K d opn p n s =
     (K (trace s) (Allow d opn p n),
      log (E_sys (Allow d opn p n) (K (trace s) (Allow d opn p n))) s)"
  by (simp add: allow_def Let_def)

lemma command_eq:
  "command K d opn a s =
     (K (trace s) (Command d opn a),
      log (E_sys (Command d opn a) (K (trace s) (Command d opn a))) s)"
  by (simp add: command_def Let_def)

lemma subscribe_fst [simp]:
  "fst (subscribe K d ev cb ud s) = K (trace s) (Subscribe d ev cb ud)"
  by (simp add: subscribe_def Let_def)

lemma subscribe_snd [simp]:
  "trace (snd (subscribe K d ev cb ud s)) =
     trace s @ [E_sys (Subscribe d ev cb ud) (K (trace s) (Subscribe d ev cb ud))]"
  "heap (snd (subscribe K d ev cb ud s)) = heap s"
  "brk (snd (subscribe K d ev cb ud s)) = brk s"
  "heap_avail (snd (subscribe K d ev cb ud s)) = heap_avail s"
  "pending (snd (subscribe K d ev cb ud s)) = pending s"
  by (simp_all add: subscribe_def Let_def)

lemma subscribe_subs:
  "subs (snd (subscribe K d ev cb ud s)) =
     (if K (trace s) (Subscribe d ev cb ud) <s 0 then subs s
      else ((d, ev), cb, ud) # filter (\<lambda>e. fst e \<noteq> (d, ev)) (subs s))"
  by (simp add: subscribe_def Let_def)

lemma drivers_append [simp]: "drivers (xs @ ys) = drivers xs @ drivers ys"
  by (induction xs rule: drivers.induct) simp_all

lemma freed_append [simp]: "freed (xs @ ys) = freed xs @ freed ys"
  by (induction xs rule: freed.induct) simp_all

lemma map_of_filter_key [simp]: "map_of (filter (\<lambda>e. fst e \<noteq> p) xs) p = None"
  by (induction xs) auto

lemma drivers_frees [simp]: "drivers (map E_free ps) = []"
  by (induction ps) simp_all

lemma freed_frees [simp]: "freed (map E_free ps) = ps"
  by (induction ps) simp_all

text \<open>What a release and one callback execution do to the state.\<close>

lemma free_effect:
  assumes "free p s = Inr s1"
  shows "subs s1 = subs s \<and> pending s1 = pending s \<and> brk s1 = brk s \<and>
         trace s1 = trace s @ map E_free (filter (\<lambda>q. q \<noteq> 0) [p]) \<and>
         (p \<noteq> 0 \<longrightarrow> map_of (heap s1) p = None)"
  using assms by (auto simp: free_def split: if_splits option.splits)

lemma free_all_effect:
  "free_all ps s = Inr s1 \<Longrightarrow>
     subs s1 = subs s \<and> pending s1 = pending s \<and> brk s1 = brk s \<and>
     trace s1 = trace s @ map E_free (filter (\<lambda>q. q \<noteq> 0) ps)"
proof (induction ps arbitrary: s)
  case Nil
  then show ?case by simp
next
  case (Cons p ps)
  from Cons.prems obtain s0 where f: "free p s = Inr s0" and r: "free_all ps s0 = Inr s1"
    by (cases "free p s") auto
  from free_effect [OF f] Cons.IH [OF r] show ?case by auto
qed

lemma run_cb_effect:
  assumes "run_cb cb x y z ud s = Inr (t, s1)"
  shows "t = cb_tag cb \<and> subs s1 = subs s \<and> pending s1 = pending s \<and> brk s1 = brk s \<and>
         trace s1 = trace s @ map E_free (filter (\<lambda>q. q \<noteq> 0) (cb_frees cb ud)) \<and>
         (cb = CB_putstr \<and> ud \<noteq> 0 \<longrightarrow> map_of (heap s1) ud = None)"
proof (cases cb)
  case CB_putstr
  with assms obtain s0 where f: "free ud s = Inr s0" and e: "t = PUTSTR" "s1 = s0"
    by (cases "free ud s") (auto simp: putstr_cb_def)
  from free_effect [OF f] e CB_putstr show ?thesis by simp
next
  case CB_delay
  with assms show ?thesis by (auto simp: delay_cb_def)
next
  case CB_spi
  with assms show ?thesis by (auto simp: spi_cb_def)
next
  case (CB_app t' ps)
  with assms obtain s0 where f: "free_all ps s = Inr s0" and e: "t = t'" "s1 = s0"
    by (cases "free_all ps s") auto
  from free_all_effect [OF f] e CB_app show ?thesis by simp
qed

lemma wait_loop_calls:
  "wait_loop t ds s = Some (Inr s') \<Longrightarrow>
     drivers (trace s') = drivers (trace s) \<and> subs s' = subs s \<and> brk s' = brk s"
proof (induction ds arbitrary: s)
  case Nil
  then show ?case by simp
next
  case (Cons dl ds)
  obtain d ev x y z where dl: "dl = Delivery d ev x y z" by (cases dl)
  show ?case
  proof (cases "map_of (subs s) (d, ev)")
    case None
    with Cons.prems dl have "wait_loop t ds (s\<lparr>pending := ds\<rparr>) = Some (Inr s')" by simp
    from Cons.IH [OF this] show ?thesis by simp
  next
    case (Some reg)
    obtain cb ud where reg: "reg = (cb, ud)" by (cases reg)
    let ?s0 = "log (E_invoke cb ud) (s\<lparr>pending := ds\<rparr>)"
    from Cons.prems dl Some reg obtain t' s1 where run: "run_cb cb x y z ud ?s0 = Inr (t', s1)"
      by (cases "run_cb cb x y z ud ?s0") auto
    from run_cb_effect [OF run]
    have eff: "subs s1 = subs s" "brk s1 = brk s" "drivers (trace s1) = drivers (trace s)"
      by simp_all
    show ?thesis
    proof (cases "t' = t")
      case True
      with Cons.prems dl Some reg run eff show ?thesis by auto
    next
      case False
      with Cons.prems dl Some reg run
      have "wait_loop t ds (log (E_yield t') s1) = Some (Inr s')" by simp
      from Cons.IH [OF this] eff show ?thesis by simp
    qed
  qed
qed

lemma wait_loop_ends:
  "wait_loop t ds s = Some (Inr s') \<Longrightarrow>
     \<exists>pre cb ud fr. trace s' = trace s @ pre @ E_invoke cb ud # fr @ [E_yield t] \<and>
                     cb_tag cb = t"
proof (induction ds arbitrary: s)
  case Nil
  then show ?case by simp
next
  case (Cons dl ds)
  obtain d ev x y z where dl: "dl = Delivery d ev x y z" by (cases dl)
  show ?case
  proof (cases "map_of (subs s) (d, ev)")
    case None
    with Cons.prems dl have "wait_loop t ds (s\<lparr>pending := ds\<rparr>) = Some (Inr s')" by simp
    from Cons.IH [OF this] show ?thesis by simp
  next
    case (Some reg)
    obtain cb ud where reg: "reg = (cb, ud)" by (cases reg)
    let ?s0 = "log (E_invoke cb ud) (s\<lparr>pending := ds\<rparr>)"
    from Cons.prems dl Some reg obtain t' s1 where run: "run_cb cb x y z ud ?s0 = Inr (t', s1)"
      by (cases "run_cb cb x y z ud ?s0") auto
    from run_cb_effect [OF run]
    obtain fr where tag: "t' = cb_tag cb"
      and tr: "trace s1 = trace s @ E_invoke cb ud # fr"
      by simp
    show ?thesis
    proof (cases "t' = t")
      case True
      with Cons.prems dl Some reg run have "s' = log (E_yield t) s1" by simp
      with tr have "trace s' = trace s @ [] @ E_invoke cb ud # fr @ [E_yield t]" by simp
      with tag True show ?thesis by blast
    next
      case False
      with Cons.prems dl Some reg run
      have "wait_loop t ds (log (E_yield t') s1) = Some (Inr s')" by simp
      from Cons.IH [OF this]
      obtain pre cb' ud' fr' where
        "trace s' = trace (log (E_yield t') s1) @ pre @ E_invoke cb' ud' # fr' @ [E_yield t]"
        "cb_tag cb' = t"
        by blast
      with tr
      have "trace s' = trace s @ (E_invoke cb ud # fr @ E_yield t' # pre) @
                         E_invoke cb' ud' # fr' @ [E_yield t] \<and> cb_tag cb' = t"
        by simp
      then show ?thesis by blast
    qed
  qed
qed


lemma putnstr_async_eq:
  "putnstr_async K str len cb ud s =
     (let r1 = K (trace s) (Allow 0 1 str len);
          t1 = trace s @ [E_sys (Allow 0 1 str len) r1];
          r2 = K t1 (Subscribe 0 1 cb ud)
      in s\<lparr>subs := (if r2 <s 0 then subs s
                     else ((0, 1), cb, ud) # filter (\<lambda>e. fst e \<noteq> (0, 1)) (subs s)),
           trace := t1 @ [E_sys (Subscribe 0 1 cb ud) r2]\<rparr>)"
  by (simp add: putnstr_async_def allow_def subscribe_def log_def Let_def)

lemma delay_ms_eq:
  "delay_ms K ms s =
     (let r1 = K (trace s) (Subscribe 3 0 CB_delay 0);
          t1 = trace s @ [E_sys (Subscribe 3 0 CB_delay 0) r1];
          r2 = K t1 (Command 3 0 ms)
      in wait_for DELAY
           (s\<lparr>subs := (if r1 <s 0 then subs s
                        else ((3, 0), CB_delay, 0) # filter (\<lambda>e. fst e \<noteq> (3, 0)) (subs s)),
              trace := t1 @ [E_sys (Command 3 0 ms) r2]\<rparr>))"
  by (simp add: delay_ms_def timer_subscribe_def timer_oneshot_def command_def subscribe_def
      log_def Let_def)

lemma spi_write_eq:
  "spi_write K str len cb s =
     (let r1 = K (trace s) (Allow 4 1 str len);
          t1 = trace s @ [E_sys (Allow 4 1 str len) r1];
          r2 = K t1 (Subscribe 4 0 cb 0);
          t2 = t1 @ [E_sys (Subscribe 4 0 cb 0) r2];
          r3 = K t2 (Command 4 1 len)
      in if r1 <s 0 then (r1, s\<lparr>trace := t1\<rparr>)
         else if r2 <s 0 then (r2, s\<lparr>trace := t2\<rparr>)
         else (r3, s\<lparr>subs := ((4, 0), cb, 0) # filter (\<lambda>e. fst e \<noteq> (4, 0)) (subs s),
                       trace := t2 @ [E_sys (Command 4 1 len) r3]\<rparr>))"
  by (simp add: spi_write_def allow_def command_def subscribe_def log_def Let_def)

lemma delay_ms_fires:
  assumes "\<not> K (trace s) (Subscribe 3 0 CB_delay 0) <s 0"
    and "pending s = Delivery 3 0 x y z # ds"
  shows "delay_ms K ms s =
     (let r1 = K (trace s) (Subscribe 3 0 CB_delay 0);
          t1 = trace s @ [E_sys (Subscribe 3 0 CB_delay 0) r1];
          r2 = K t1 (Command 3 0 ms)
      in Some (Inr (s\<lparr>subs := ((3, 0), CB_delay, 0) # filter (\<lambda>e. fst e \<noteq> (3, 0)) (subs s),
                      pending := ds,
                      trace := t1 @ [E_sys (Command 3 0 ms) r2, E_wait DELAY,
                                     E_invoke CB_delay 0, E_yield DELAY]\<rparr>)))"
  using assms
  by (simp add: delay_ms_eq wait_for_def delay_cb_def log_def Let_def)


lemma putnstr_eq:
  assumes "unat len \<le> heap_avail s" and "strncpy_bytes str (unat len) = Some bytes"
  shows "putnstr K str len s =
     (let b = Suc (brk s);
          t0 = trace s @ [E_malloc len b, E_strncpy b bytes];
          r1 = K t0 (Allow 0 1 b len);
          t1 = t0 @ [E_sys (Allow 0 1 b len) r1];
          r2 = K t1 (Subscribe 0 1 CB_putstr b);
          t2 = t1 @ [E_sys (Subscribe 0 1 CB_putstr b) r2]
      in wait_for PUTSTR
           (s\<lparr>heap := (b, bytes) # filter (\<lambda>e. fst e \<noteq> b) (heap s),
              brk := b,
              heap_avail := heap_avail s - unat len,
              subs := (if r2 <s 0 then subs s
                       else ((0, 1), CB_putstr, b) # filter (\<lambda>e. fst e \<noteq> (0, 1)) (subs s)),
              trace := t2\<rparr>))"
  using assms
  by (auto simp: putnstr_def malloc_def strncpy_def putnstr_async_def allow_def subscribe_def
      log_def Let_def intro!: arg_cong [where f = "wait_for PUTSTR"] state.equality)

lemma putnstr_drivers:
  assumes "putnstr K str len s = Some (Inr s')"
  shows "drivers (trace s') = drivers (trace s) @ [0, 0]"
proof -
  obtain b s1 where m: "malloc len s = (b, s1)" by (cases "malloc len s")
  then have d1: "drivers (trace s1) = drivers (trace s)"
    by (auto simp: malloc_def split: if_splits)
  from assms m obtain s2 where cp: "strncpy b str len s1 = Inr s2"
    and w: "wait_for PUTSTR (putnstr_async K b len CB_putstr b s2) = Some (Inr s')"
    by (cases "strncpy b str len s1") (simp_all add: putnstr_def)
  from cp d1 have d2: "drivers (trace s2) = drivers (trace s)"
    by (auto simp: strncpy_def split: if_splits option.splits)
  let ?s3 = "putnstr_async K b len CB_putstr b s2"
  have d3: "drivers (trace (log (E_wait PUTSTR) ?s3)) = drivers (trace s) @ [0, 0]"
    by (simp add: putnstr_async_eq Let_def d2)
  from w have "wait_loop PUTSTR (pending ?s3) (log (E_wait PUTSTR) ?s3) = Some (Inr s')"
    by (simp add: wait_for_def)
  from wait_loop_calls [OF this] d3 show ?thesis by simp
qed

lemma putstr_drivers:
  assumes "putstr K str s = Some (Inr s')"
  shows "drivers (trace s') = drivers (trace s) @ [0, 0]"
proof (cases "strlen str")
  case None
  with assms show ?thesis by (simp add: putstr_def)
next
  case (Some n)
  with assms have "putnstr K str (of_nat n) s = Some (Inr s')" by (simp add: putstr_def)
  then show ?thesis by (rule putnstr_drivers)
qed

lemma delay_ms_drivers:
  assumes "delay_ms K ms s = Some (Inr s')"
  shows "drivers (trace s') = drivers (trace s) @ [3, 3]"
proof -
  obtain r1 s1 where a: "timer_subscribe K CB_delay 0 s = (r1, s1)"
    by (cases "timer_subscribe K CB_delay 0 s")
  obtain r2 s2 where b: "timer_oneshot K ms s1 = (r2, s2)"
    by (cases "timer_oneshot K ms s1")
  from a b have d: "drivers (trace s2) = drivers (trace s) @ [3, 3]"
    by (auto simp: timer_subscribe_def timer_oneshot_def command_eq subscribe_def Let_def
             split: if_splits)
  from assms a b have "wait_loop DELAY (pending s2) (log (E_wait DELAY) s2) = Some (Inr s')"
    by (simp add: delay_ms_def wait_for_def)
  from wait_loop_calls [OF this] d show ?thesis by simp
qed

lemma spi_read_write_eq:
  "spi_read_write K wr rd len cb s =
     (let r0 = K (trace s) (Allow 4 0 rd len);
          s1 = s\<lparr>trace := trace s @ [E_sys (Allow 4 0 rd len) r0]\<rparr>
      in if r0 <s 0 then (r0, s1) else spi_write K wr len cb s1)"
  by (simp add: spi_read_write_def allow_def log_def Let_def)

lemma spi_write_drivers:
  "drivers (trace (snd (spi_write K str len cb s))) =
     drivers (trace s) @
       replicate (length (trace (snd (spi_write K str len cb s))) - length (trace s)) 4"
  by (simp add: spi_write_eq Let_def eval_nat_numeral)

lemma spi_write_longer: "length (trace s) \<le> length (trace (snd (spi_write K str len cb s)))"
  by (simp add: spi_write_eq Let_def)

text \<open>Without a NUL among its first \<open>n\<close> bytes, the source is copied as it is.\<close>

lemma takeWhile_take:
  "n \<le> length xs \<Longrightarrow> \<forall>x \<in> set (take n xs). P x \<Longrightarrow>
     n \<le> length (takeWhile P xs) \<and> take n (takeWhile P xs) = take n xs"
proof (induction xs arbitrary: n)
  case Nil
  then show ?case by simp
next
  case (Cons a xs)
  then show ?case by (cases n) auto
qed

lemma strncpy_bytes_no_nul:
  assumes "n \<le> length src" and "0 \<notin> set (take n src)"
  shows "strncpy_bytes src n = Some (take n src)"
proof -
  from assms have "\<forall>x \<in> set (take n src). x \<noteq> 0" by auto
  from takeWhile_take [OF assms(1), of "\<lambda>c. c \<noteq> 0", OF this]
  show ?thesis by (simp add: strncpy_bytes_def Let_def)
qed

text \<open>
  Three runs of the model: a completion delivered twice makes the next wait free the
  buffer of the print a second time; a request larger than the heap makes \<open>strncpy\<close>
  write through NULL; without any upcall the print never returns.
\<close>

lemma duplicate_completion_faults:
  "putnstr kernel_ok [104, 105] 2 (boot [Delivery 0 1 2 0 0, Delivery 0 1 2 0 0]) =
     Some (Inr \<lparr>heap = [], brk = 1, heap_avail = 4096, subs = [((0, 1), CB_putstr, 1)],
                pending = [Delivery 0 1 2 0 0],
                trace = [E_malloc 2 1, E_strncpy 1 [104, 105], E_sys (Allow 0 1 1 2) 0,
                         E_sys (Subscribe 0 1 CB_putstr 1) 0, E_wait PUTSTR,
                         E_invoke CB_putstr 1, E_free 1, E_yield PUTSTR]\<rparr>) \<and>
   delay_ms kernel_ok 5
     \<lparr>heap = [], brk = 1, heap_avail = 4096, subs = [((0, 1), CB_putstr, 1)],
      pending = [Delivery 0 1 2 0 0],
      trace = [E_malloc 2 1, E_strncpy 1 [104, 105], E_sys (Allow 0 1 1 2) 0,
               E_sys (Subscribe 0 1 CB_putstr 1) 0, E_wait PUTSTR,
               E_invoke CB_putstr 1, E_free 1, E_yield PUTSTR]\<rparr> =
     Some (Inl (Invalid_free 1))"
  by (simp add: putnstr_def malloc_def strncpy_def strncpy_bytes_def putnstr_async_def
        allow_def subscribe_def wait_for_def putstr_cb_def free_def boot_def kernel_ok_def
        log_def Let_def delay_ms_eq)

lemma malloc_fails:
  "putnstr kernel_ok [104, 105] 8192 (boot []) = Some (Inl (Invalid_write 0))"
  by (simp add: putnstr_def malloc_def strncpy_def boot_def log_def)

lemma blocks_forever:
  "putnstr kernel_ok [104, 105] 2 (boot []) = None"
  by (simp add: putnstr_def malloc_def strncpy_def strncpy_bytes_def putnstr_async_def
        allow_def subscribe_def wait_for_def putstr_cb_def free_def boot_def kernel_ok_def
        log_def Let_def)

section \<open>The blocking print and its buffer\<close>




section \<open>The completion callback of the print, run twice\<close>

text \<open>
  C6, as stated, does not hold: \<open>putstr_cb\<close> has no guard. Run on the live block at
  address 1 it releases the block; run again on the same address it calls \<open>free\<close> on a
  block that is no longer allocated, which is a second free, not a no-op.
\<close>

theorem putstr_cb_twice:
  "putstr_cb 0 0 0 1 one_block = Inr (PUTSTR, block_released) \<and>
   putstr_cb 0 0 0 1 block_released = Inl (Invalid_free 1)"
  by (simp add: putstr_cb_def free_def one_block_def block_released_def log_def)

text \<open>
  C6, amended. Every execution of \<open>putstr_cb\<close> calls \<open>free\<close> on its user data. The
  first execution on a live buffer releases it and yields \<open>PUTSTR\<close>; a duplicate
  execution on the same buffer, whatever its integer arguments, frees the released
  buffer once more, which is undefined behaviour. The buffer is released exactly once
  only if the callback is executed exactly once.
\<close>

theorem putstr_cb_frees_unconditionally:
  assumes "b \<noteq> 0" and "map_of (heap s) b = Some blk"
  shows "\<exists>s1. putstr_cb x y z b s = Inr (PUTSTR, s1) \<and>
              trace s1 = trace s @ [E_free b] \<and>
              map_of (heap s1) b = None \<and>
              putstr_cb x' y' z' b s1 = Inl (Invalid_free b)"
  using assms by (simp add: putstr_cb_def free_def)

theorem putstr_cb_frees_unconditionally_witness:
  "(1 :: addr) \<noteq> 0 \<and> map_of (heap one_block) 1 = Some [104, 105] \<and>
   (\<exists>s1. putstr_cb 0 0 0 1 one_block = Inr (PUTSTR, s1) \<and>
          trace s1 = trace one_block @ [E_free 1] \<and>
          map_of (heap s1) 1 = None \<and>
          putstr_cb 7 8 9 1 s1 = Inl (Invalid_free 1))"
proof -
  have a: "(1 :: addr) \<noteq> 0" by simp
  have b: "map_of (heap one_block) 1 = Some [104, 105]" by (simp add: one_block_def)
  from putstr_cb_frees_unconditionally [OF a b, of 0 0 0 7 8 9] a b
  show ?thesis by simp
qed

section \<open>The SPI read and write composition\<close>

text \<open>
  C5. When the grant of the read buffer (driver 4, operation 0) returns a negative
  value, \<open>spi_read_write\<close> returns that value and has issued nothing but that grant: the
  state it leaves differs from the initial one by this one system call in the trace.
\<close>

theorem spi_read_write_read_grant_fails:
  assumes "K (trace s) (Allow 4 0 rd len) <s 0"
  shows "spi_read_write K wr rd len cb s =
           (K (trace s) (Allow 4 0 rd len),
            s\<lparr>trace := trace s @
                 [E_sys (Allow 4 0 rd len) (K (trace s) (Allow 4 0 rd len))]\<rparr>)"
  using assms by (simp add: spi_read_write_eq Let_def)

theorem spi_read_write_read_grant_fails_witness:
  "kernel_no_allow (trace (boot [])) (Allow 4 0 9 16) <s 0 \<and>
   spi_read_write kernel_no_allow 8 9 16 CB_spi (boot []) =
     (- 3, \<lparr>heap = [], brk = 0, heap_avail = 4096, subs = [], pending = [],
            trace = [E_sys (Allow 4 0 9 16) (- 3)]\<rparr>)"
  using spi_read_write_read_grant_fails
          [where K = kernel_no_allow and s = "boot []" and rd = 9 and len = 16 and wr = 8
             and cb = CB_spi]
  by (simp add: kernel_no_allow_def boot_def word_sless_alt)

section \<open>The tags of the callbacks\<close>

text \<open>
  C9. \<open>putstr_cb\<close> yields \<open>PUTSTR\<close> whenever it returns, \<open>delay_cb\<close> yields \<open>DELAY\<close> and
  \<open>spi_cb\<close> yields \<open>SPIBUF\<close>, whatever the three integers and the user data are; the
  three tags are pairwise distinct; and a wait for a tag returns only right after the
  execution of a callback that yielded this tag, so that a wait for one of the three
  tags is never ended by the callback of another.
\<close>

theorem callback_tags_distinct:
  "(putstr_cb x y z ud s = Inl (Invalid_free ud) \<or>
      (\<exists>s1. putstr_cb x y z ud s = Inr (PUTSTR, s1))) \<and>
   delay_cb s = Inr (DELAY, s) \<and>
   spi_cb x y z ud s = Inr (SPIBUF, s) \<and>
   PUTSTR \<noteq> DELAY \<and> PUTSTR \<noteq> SPIBUF \<and> DELAY \<noteq> SPIBUF \<and>
   (wait_for t s = Some (Inr s') \<longrightarrow>
      (\<exists>pre cb u fr.
         trace s' = trace s @ E_wait t # pre @ E_invoke cb u # fr @ [E_yield t] \<and>
         (cb = CB_putstr \<longrightarrow> t = PUTSTR) \<and>
         (cb = CB_delay \<longrightarrow> t = DELAY) \<and>
         (cb = CB_spi \<longrightarrow> t = SPIBUF)))"
proof -
  have w: "wait_for t s = Some (Inr s') \<longrightarrow>
      (\<exists>pre cb u fr.
         trace s' = trace s @ E_wait t # pre @ E_invoke cb u # fr @ [E_yield t] \<and>
         (cb = CB_putstr \<longrightarrow> t = PUTSTR) \<and>
         (cb = CB_delay \<longrightarrow> t = DELAY) \<and>
         (cb = CB_spi \<longrightarrow> t = SPIBUF))"
  proof
    assume "wait_for t s = Some (Inr s')"
    then have "wait_loop t (pending s) (log (E_wait t) s) = Some (Inr s')"
      by (simp add: wait_for_def)
    from wait_loop_ends [OF this]
    obtain pre cb u fr where
      "trace s' = trace s @ E_wait t # pre @ E_invoke cb u # fr @ [E_yield t]" "cb_tag cb = t"
      by auto
    then have "trace s' = trace s @ E_wait t # pre @ E_invoke cb u # fr @ [E_yield t] \<and>
         (cb = CB_putstr \<longrightarrow> t = PUTSTR) \<and>
         (cb = CB_delay \<longrightarrow> t = DELAY) \<and>
         (cb = CB_spi \<longrightarrow> t = SPIBUF)"
      by auto
    then show "\<exists>pre cb u fr.
         trace s' = trace s @ E_wait t # pre @ E_invoke cb u # fr @ [E_yield t] \<and>
         (cb = CB_putstr \<longrightarrow> t = PUTSTR) \<and>
         (cb = CB_delay \<longrightarrow> t = DELAY) \<and>
         (cb = CB_spi \<longrightarrow> t = SPIBUF)"
      by blast
  qed
  have p: "putstr_cb x y z ud s = Inl (Invalid_free ud) \<or>
      (\<exists>s1. putstr_cb x y z ud s = Inr (PUTSTR, s1))"
    by (simp add: putstr_cb_def free_def split: option.splits)
  from p w show ?thesis by (simp add: delay_cb_def spi_cb_def)
qed

theorem callback_tags_distinct_witness:
  "wait_for DELAY interleaved =
     Some (Inr \<lparr>heap = [], brk = 1, heap_avail = 4096,
                subs = [((3, 0), CB_delay, 0), ((0, 1), CB_putstr, 1)],
                pending = [],
                trace = [E_wait DELAY, E_invoke CB_putstr 1, E_free 1, E_yield PUTSTR,
                         E_invoke CB_delay 0, E_yield DELAY]\<rparr>) \<and>
   (\<exists>pre cb u fr.
      [E_wait DELAY, E_invoke CB_putstr 1, E_free 1, E_yield PUTSTR,
       E_invoke CB_delay 0, E_yield DELAY] =
        trace interleaved @ E_wait DELAY # pre @ E_invoke cb u # fr @ [E_yield DELAY] \<and>
      cb \<noteq> CB_putstr \<and> cb \<noteq> CB_spi)"
proof -
  let ?s' = "\<lparr>heap = [], brk = 1, heap_avail = 4096,
              subs = [((3, 0), CB_delay, 0), ((0, 1), CB_putstr, 1)],
              pending = [],
              trace = [E_wait DELAY, E_invoke CB_putstr 1, E_free 1, E_yield PUTSTR,
                       E_invoke CB_delay 0, E_yield DELAY]\<rparr>"
  have ret: "wait_for DELAY interleaved = Some (Inr ?s')"
    by (simp add: wait_for_def interleaved_def putstr_cb_def delay_cb_def free_def log_def)
  note callback_tags_distinct
         [where t = DELAY and s = interleaved and s' = ?s',
          THEN conjunct2, THEN conjunct2, THEN conjunct2, THEN conjunct2, THEN conjunct2,
          THEN conjunct2, THEN mp, OF ret]
  then obtain pre cb u fr where
    tr: "trace ?s' = trace interleaved @ E_wait DELAY # pre @ E_invoke cb u # fr @ [E_yield DELAY]"
    and c1: "cb = CB_putstr \<longrightarrow> DELAY = PUTSTR" and c2: "cb = CB_spi \<longrightarrow> DELAY = SPIBUF"
    by blast
  from tr have tr':
    "[E_wait DELAY, E_invoke CB_putstr 1, E_free 1, E_yield PUTSTR,
      E_invoke CB_delay 0, E_yield DELAY] =
     trace interleaved @ E_wait DELAY # pre @ E_invoke cb u # fr @ [E_yield DELAY]"
    by (simp only: state.select_convs)
  from c1 c2 have "cb \<noteq> CB_putstr" "cb \<noteq> CB_spi" by auto
  with ret tr' show ?thesis by blast
qed

section \<open>The blocking SPI write\<close>

text \<open>
  What \<open>spi_block_write\<close> does, for every kernel and state: the grant of the write
  buffer, the subscription of \<open>spi_cb\<close> and the trigger of the transfer, each step
  only after the success of the one before; it returns the result of the last step it
  issued, never enters a wait for \<open>SPIBUF\<close> and consumes no upcall.
\<close>

lemma spi_block_write_returns_at_once:
  "spi_block_write K str len s =
     (let r1 = K (trace s) (Allow 4 1 str len);
          t1 = trace s @ [E_sys (Allow 4 1 str len) r1];
          r2 = K t1 (Subscribe 4 0 CB_spi 0);
          t2 = t1 @ [E_sys (Subscribe 4 0 CB_spi 0) r2];
          r3 = K t2 (Command 4 1 len)
      in if r1 <s 0 then (r1, s\<lparr>trace := t1\<rparr>)
         else if r2 <s 0 then (r2, s\<lparr>trace := t2\<rparr>)
         else (r3, s\<lparr>subs := ((4, 0), CB_spi, 0) # filter (\<lambda>e. fst e \<noteq> (4, 0)) (subs s),
                       trace := t2 @ [E_sys (Command 4 1 len) r3]\<rparr>)) \<and>
   pending (snd (spi_block_write K str len s)) = pending s \<and>
   E_wait SPIBUF \<notin> set (drop (length (trace s)) (trace (snd (spi_block_write K str len s))))"
  by (simp add: spi_block_write_def spi_write_eq Let_def)

text \<open>
  C2. The blocking SPI write is to wait for \<open>SPIBUF\<close> after it has composed the grant,
  the subscription and the trigger. The code does not: its \<open>wait_for(SPIBUF)\<close> stands
  commented out behind the \<open>return\<close>. With the completion upcall of the transfer on its
  way, the call returns the result of the trigger at once: the trace has the three
  system calls and no wait, the upcall is still pending and \<open>spi_cb\<close> has not run.
\<close>

theorem spi_block_write_no_wait:
  "spi_block_write kernel_ok 8 16 (boot [Delivery 4 0 0 0 0]) =
     (0, \<lparr>heap = [], brk = 0, heap_avail = 4096, subs = [((4, 0), CB_spi, 0)],
          pending = [Delivery 4 0 0 0 0],
          trace = [E_sys (Allow 4 1 8 16) 0, E_sys (Subscribe 4 0 CB_spi 0) 0,
                   E_sys (Command 4 1 16) 0]\<rparr>)"
  by (simp add: spi_block_write_def spi_write_eq Let_def boot_def kernel_ok_def)

section \<open>Failures of the system calls\<close>

text \<open>
  C3, as stated, does not hold for the console: the kernel refuses the grant of
  \<open>putnstr_async\<close> with -3, and the facade goes on to subscribe and returns nothing.
\<close>

theorem putnstr_async_ignores_allow_failure:
  "putnstr_async kernel_no_allow 8 16 (CB_app (OTHER 0) []) 0 (boot []) =
     \<lparr>heap = [], brk = 0, heap_avail = 4096, subs = [((0, 1), CB_app (OTHER 0) [], 0)],
      pending = [],
      trace = [E_sys (Allow 0 1 8 16) (- 3),
               E_sys (Subscribe 0 1 (CB_app (OTHER 0) []) 0) 0]\<rparr>"
  by (simp add: putnstr_async_eq Let_def boot_def kernel_no_allow_def)

text \<open>
  C3, amended. Only the SPI compositions stop at a negative result and return it
  unchanged: \<open>spi_write\<close> after its grant and after its subscription, \<open>spi_read_write\<close>
  after the grant of the read buffer and then as \<open>spi_write\<close> does. The console
  prints \<open>putnstr_async\<close> and \<open>putnstr\<close>, the timer delay \<open>delay_ms\<close> and the
  serialization write return no result and issue every step whatever the kernel
  answered: \<open>putnstr_async\<close> subscribes after a refused grant, \<open>putnstr\<close> (once its
  buffer is allocated and filled) and \<open>delay_ms\<close> still enter their wait after refused
  calls, and the serialization write still issues its command.
\<close>

theorem facade_failure_semantics:
  "spi_write K str len cb s =
     (let r1 = K (trace s) (Allow 4 1 str len);
          t1 = trace s @ [E_sys (Allow 4 1 str len) r1];
          r2 = K t1 (Subscribe 4 0 cb 0);
          t2 = t1 @ [E_sys (Subscribe 4 0 cb 0) r2];
          r3 = K t2 (Command 4 1 len)
      in if r1 <s 0 then (r1, s\<lparr>trace := t1\<rparr>)
         else if r2 <s 0 then (r2, s\<lparr>trace := t2\<rparr>)
         else (r3, s\<lparr>subs := ((4, 0), cb, 0) # filter (\<lambda>e. fst e \<noteq> (4, 0)) (subs s),
                       trace := t2 @ [E_sys (Command 4 1 len) r3]\<rparr>)) \<and>
   spi_read_write K wr rd len cb s =
     (let r0 = K (trace s) (Allow 4 0 rd len);
          s1 = s\<lparr>trace := trace s @ [E_sys (Allow 4 0 rd len) r0]\<rparr>
      in if r0 <s 0 then (r0, s1) else spi_write K wr len cb s1) \<and>
   trace (putnstr_async K str len cb ud s) =
     (let r1 = K (trace s) (Allow 0 1 str len);
          t1 = trace s @ [E_sys (Allow 0 1 str len) r1];
          r2 = K t1 (Subscribe 0 1 cb ud)
      in t1 @ [E_sys (Subscribe 0 1 cb ud) r2]) \<and>
   (unat len \<le> heap_avail s \<and> strncpy_bytes cs (unat len) = Some bytes \<longrightarrow>
    putnstr K cs len s =
      (let b = Suc (brk s);
           t0 = trace s @ [E_malloc len b, E_strncpy b bytes];
           r1 = K t0 (Allow 0 1 b len);
           t1 = t0 @ [E_sys (Allow 0 1 b len) r1];
           r2 = K t1 (Subscribe 0 1 CB_putstr b);
           t2 = t1 @ [E_sys (Subscribe 0 1 CB_putstr b) r2]
       in wait_for PUTSTR
            (s\<lparr>heap := (b, bytes) # filter (\<lambda>e. fst e \<noteq> b) (heap s),
               brk := b,
               heap_avail := heap_avail s - unat len,
               subs := (if r2 <s 0 then subs s
                        else ((0, 1), CB_putstr, b) # filter (\<lambda>e. fst e \<noteq> (0, 1)) (subs s)),
               trace := t2\<rparr>))) \<and>
   delay_ms K ms s =
     (let r1 = K (trace s) (Subscribe 3 0 CB_delay 0);
          t1 = trace s @ [E_sys (Subscribe 3 0 CB_delay 0) r1];
          r2 = K t1 (Command 3 0 ms)
      in wait_for DELAY
           (s\<lparr>subs := (if r1 <s 0 then subs s
                        else ((3, 0), CB_delay, 0) # filter (\<lambda>e. fst e \<noteq> (3, 0)) (subs s)),
              trace := t1 @ [E_sys (Command 3 0 ms) r2]\<rparr>)) \<and>
   nrf51822_serialization_write K tx tx_len s =
     (let r1 = K (trace s) (Allow 5 1 tx tx_len);
          t1 = trace s @ [E_sys (Allow 5 1 tx tx_len) r1];
          r2 = K t1 (Command 5 0 0)
      in s\<lparr>trace := t1 @ [E_sys (Command 5 0 0) r2]\<rparr>)"
proof -
  have a: "trace (putnstr_async K str len cb ud s) =
     (let r1 = K (trace s) (Allow 0 1 str len);
          t1 = trace s @ [E_sys (Allow 0 1 str len) r1];
          r2 = K t1 (Subscribe 0 1 cb ud)
      in t1 @ [E_sys (Subscribe 0 1 cb ud) r2])"
    by (simp add: putnstr_async_eq Let_def)
  have b: "nrf51822_serialization_write K tx tx_len s =
     (let r1 = K (trace s) (Allow 5 1 tx tx_len);
          t1 = trace s @ [E_sys (Allow 5 1 tx tx_len) r1];
          r2 = K t1 (Command 5 0 0)
      in s\<lparr>trace := t1 @ [E_sys (Command 5 0 0) r2]\<rparr>)"
    by (simp add: nrf51822_serialization_write_def allow_def command_def log_def Let_def)
  have c: "unat len \<le> heap_avail s \<and> strncpy_bytes cs (unat len) = Some bytes \<longrightarrow>
    putnstr K cs len s =
      (let b = Suc (brk s);
           t0 = trace s @ [E_malloc len b, E_strncpy b bytes];
           r1 = K t0 (Allow 0 1 b len);
           t1 = t0 @ [E_sys (Allow 0 1 b len) r1];
           r2 = K t1 (Subscribe 0 1 CB_putstr b);
           t2 = t1 @ [E_sys (Subscribe 0 1 CB_putstr b) r2]
       in wait_for PUTSTR
            (s\<lparr>heap := (b, bytes) # filter (\<lambda>e. fst e \<noteq> b) (heap s),
               brk := b,
               heap_avail := heap_avail s - unat len,
               subs := (if r2 <s 0 then subs s
                        else ((0, 1), CB_putstr, b) # filter (\<lambda>e. fst e \<noteq> (0, 1)) (subs s)),
               trace := t2\<rparr>))"
    using putnstr_eq [of len s cs bytes K] by blast
  from a b c spi_write_eq [of K str len cb s] spi_read_write_eq [of K wr rd len cb s]
    delay_ms_eq [of K ms s]
  show ?thesis by (intro conjI)
qed

theorem facade_failure_semantics_witness:
  "unat (2 :: word32) \<le> heap_avail (boot []) \<and>
   strncpy_bytes [104, 105] (unat (2 :: word32)) = Some [104, 105] \<and>
   putnstr kernel_refuse [104, 105] 2 (boot []) =
     wait_for PUTSTR
       \<lparr>heap = [(1, [104, 105])], brk = 1, heap_avail = 4094, subs = [], pending = [],
        trace = [E_malloc 2 1, E_strncpy 1 [104, 105], E_sys (Allow 0 1 1 2) (- 1),
                 E_sys (Subscribe 0 1 CB_putstr 1) (- 1)]\<rparr>"
proof -
  have h: "unat (2 :: word32) \<le> heap_avail (boot []) \<and>
           strncpy_bytes [104, 105] (unat (2 :: word32)) = Some [104, 105]"
    by (simp add: boot_def strncpy_bytes_def)
  from facade_failure_semantics
         [where K = kernel_refuse and len = 2 and s = "boot []" and cs = "[104, 105]"
            and bytes = "[104, 105]",
          THEN conjunct2, THEN conjunct2, THEN conjunct2, THEN conjunct1, THEN mp, OF h] h
  show ?thesis by (simp add: Let_def kernel_refuse_def boot_def word_sless_alt)
qed

section \<open>Driver numbers\<close>

text \<open>
  C4, as stated, does not hold for the console: the two system calls of
  \<open>putnstr_async\<close> address driver 0, not driver 1.
\<close>

theorem console_driver_number:
  "drivers (trace (putnstr_async kernel_ok 8 16 CB_putstr 8 (boot []))) = [0, 0]"
  by (simp add: putnstr_async_eq Let_def boot_def kernel_ok_def)

text \<open>
  C4, amended. The facades address the kernel drivers by the fixed driver numbers
  console = 0, timer = 3, SPI = 4, serial co-processor = 5: every allow, subscribe and
  command issued by the console facade uses driver identifier 0, the timer facade 3,
  the SPI facade 4 and the serialization facade 5.
\<close>

theorem facade_driver_numbers:
  "drivers (trace (putnstr_async K str len cb ud s)) = drivers (trace s) @ [0, 0] \<and>
   (putnstr K cs len s = Some (Inr s1) \<longrightarrow> drivers (trace s1) = drivers (trace s) @ [0, 0]) \<and>
   (putstr K cs s = Some (Inr s3) \<longrightarrow> drivers (trace s3) = drivers (trace s) @ [0, 0]) \<and>
   drivers (trace (snd (timer_subscribe K cb ud s))) = drivers (trace s) @ [3] \<and>
   drivers (trace (snd (timer_oneshot K ms s))) = drivers (trace s) @ [3] \<and>
   drivers (trace (snd (timer_start_repeating K ms s))) = drivers (trace s) @ [3] \<and>
   (delay_ms K ms s = Some (Inr s2) \<longrightarrow> drivers (trace s2) = drivers (trace s) @ [3, 3]) \<and>
   drivers (trace (snd (spi_write_byte K b s))) = drivers (trace s) @ [4] \<and>
   drivers (trace (snd (spi_read_buf K str len s))) = drivers (trace s) @ [4] \<and>
   drivers (trace (snd (spi_write K str len cb s))) =
     drivers (trace s) @
       replicate (length (trace (snd (spi_write K str len cb s))) - length (trace s)) 4 \<and>
   drivers (trace (snd (spi_read_write K str rd len cb s))) =
     drivers (trace s) @
       replicate (length (trace (snd (spi_read_write K str rd len cb s))) - length (trace s)) 4 \<and>
   drivers (trace (snd (spi_block_write K str len s))) =
     drivers (trace s) @
       replicate (length (trace (snd (spi_block_write K str len s))) - length (trace s)) 4 \<and>
   drivers (trace (nrf51822_serialization_subscribe K cb s)) = drivers (trace s) @ [5] \<and>
   drivers (trace (nrf51822_serialization_setup_rx_buffer K str len s)) =
     drivers (trace s) @ [5] \<and>
   drivers (trace (nrf51822_serialization_write K str len s)) = drivers (trace s) @ [5, 5]"
proof -
  have rw: "drivers (trace (snd (spi_read_write K str rd len cb s))) =
     drivers (trace s) @
       replicate (length (trace (snd (spi_read_write K str rd len cb s))) - length (trace s)) 4"
  proof (cases "K (trace s) (Allow 4 0 rd len) <s 0")
    case True
    then show ?thesis by (simp add: spi_read_write_eq Let_def)
  next
    case False
    let ?s1 = "s\<lparr>trace := trace s @ [E_sys (Allow 4 0 rd len) (K (trace s) (Allow 4 0 rd len))]\<rparr>"
    let ?n = "length (trace (snd (spi_write K str len cb ?s1))) - length (trace ?s1)"
    from False have eq: "spi_read_write K str rd len cb s = spi_write K str len cb ?s1"
      by (simp add: spi_read_write_eq Let_def)
    have le: "length (trace ?s1) \<le> length (trace (snd (spi_write K str len cb ?s1)))"
      by (rule spi_write_longer)
    then have "length (trace (snd (spi_write K str len cb ?s1))) - length (trace s) = Suc ?n"
      by simp
    with spi_write_drivers [of K str len cb ?s1] eq show ?thesis
      by (simp add: replicate_append_same)
  qed
  have simple:
    "drivers (trace (putnstr_async K str len cb ud s)) = drivers (trace s) @ [0, 0]"
    "drivers (trace (snd (timer_subscribe K cb ud s))) = drivers (trace s) @ [3]"
    "drivers (trace (snd (timer_oneshot K ms s))) = drivers (trace s) @ [3]"
    "drivers (trace (snd (timer_start_repeating K ms s))) = drivers (trace s) @ [3]"
    "drivers (trace (snd (spi_write_byte K b s))) = drivers (trace s) @ [4]"
    "drivers (trace (snd (spi_read_buf K str len s))) = drivers (trace s) @ [4]"
    "drivers (trace (nrf51822_serialization_subscribe K cb s)) = drivers (trace s) @ [5]"
    "drivers (trace (nrf51822_serialization_setup_rx_buffer K str len s)) =
       drivers (trace s) @ [5]"
    "drivers (trace (nrf51822_serialization_write K str len s)) = drivers (trace s) @ [5, 5]"
    by (simp_all add: putnstr_async_eq timer_subscribe_def timer_oneshot_def
        timer_start_repeating_def spi_write_byte_def spi_read_buf_def
        nrf51822_serialization_subscribe_def nrf51822_serialization_setup_rx_buffer_def
        nrf51822_serialization_write_def allow_eq command_eq Let_def split_beta)
  from simple rw spi_write_drivers [of K str len cb s] spi_write_drivers [of K str len CB_spi s]
    putnstr_drivers [of K cs len s s1] putstr_drivers [of K cs s s3]
    delay_ms_drivers [of K ms s s2]
  show ?thesis by (simp add: spi_block_write_def)
qed

theorem facade_driver_numbers_witness:
  "putnstr kernel_ok [104, 105] 2 (boot [Delivery 0 1 2 0 0, Delivery 3 0 0 0 0]) =
     Some (Inr \<lparr>heap = [], brk = 1, heap_avail = 4096, subs = [((0, 1), CB_putstr, 1)],
                pending = [Delivery 3 0 0 0 0],
                trace = [E_malloc 2 1, E_strncpy 1 [104, 105], E_sys (Allow 0 1 1 2) 0,
                         E_sys (Subscribe 0 1 CB_putstr 1) 0, E_wait PUTSTR,
                         E_invoke CB_putstr 1, E_free 1, E_yield PUTSTR]\<rparr>) \<and>
   drivers [E_malloc 2 1, E_strncpy 1 [104, 105], E_sys (Allow 0 1 1 2) 0,
            E_sys (Subscribe 0 1 CB_putstr 1) 0, E_wait PUTSTR,
            E_invoke CB_putstr 1, E_free 1, E_yield PUTSTR] = [0, 0] \<and>
   delay_ms kernel_ok 5 (boot [Delivery 3 0 0 0 0]) =
     Some (Inr \<lparr>heap = [], brk = 0, heap_avail = 4096, subs = [((3, 0), CB_delay, 0)],
                pending = [],
                trace = [E_sys (Subscribe 3 0 CB_delay 0) 0, E_sys (Command 3 0 5) 0,
                         E_wait DELAY, E_invoke CB_delay 0, E_yield DELAY]\<rparr>) \<and>
   drivers [E_sys (Subscribe 3 0 CB_delay 0) 0, E_sys (Command 3 0 5) 0,
            E_wait DELAY, E_invoke CB_delay 0, E_yield DELAY] = [3, 3] \<and>
   putstr kernel_ok [104, 105, 0] (boot [Delivery 0 1 2 0 0]) =
     Some (Inr \<lparr>heap = [], brk = 1, heap_avail = 4096, subs = [((0, 1), CB_putstr, 1)],
                pending = [],
                trace = [E_malloc 2 1, E_strncpy 1 [104, 105], E_sys (Allow 0 1 1 2) 0,
                         E_sys (Subscribe 0 1 CB_putstr 1) 0, E_wait PUTSTR,
                         E_invoke CB_putstr 1, E_free 1, E_yield PUTSTR]\<rparr>)"
proof -
  let ?q = "\<lparr>heap = [], brk = 1, heap_avail = 4096, subs = [((0, 1), CB_putstr, 1)],
             pending = [],
             trace = [E_malloc 2 1, E_strncpy 1 [104, 105], E_sys (Allow 0 1 1 2) 0,
                      E_sys (Subscribe 0 1 CB_putstr 1) 0, E_wait PUTSTR,
                      E_invoke CB_putstr 1, E_free 1, E_yield PUTSTR]\<rparr>"
  have q: "putstr kernel_ok [104, 105, 0] (boot [Delivery 0 1 2 0 0]) = Some (Inr ?q)"
    by (simp add: putstr_def strlen_def putnstr_def malloc_def strncpy_def strncpy_bytes_def
        putnstr_async_def allow_def subscribe_def wait_for_def putstr_cb_def free_def boot_def
        kernel_ok_def log_def Let_def)
  from facade_driver_numbers
         [where K = kernel_ok and cs = "[104, 105, 0]"
            and s = "boot [Delivery 0 1 2 0 0]" and ?s3.0 = ?q,
          THEN conjunct2, THEN conjunct2, THEN conjunct1, THEN mp, OF q]
  have dq: "drivers (trace ?q) = [0, 0]" by (simp add: boot_def)
  let ?p = "\<lparr>heap = [], brk = 1, heap_avail = 4096, subs = [((0, 1), CB_putstr, 1)],
             pending = [Delivery 3 0 0 0 0],
             trace = [E_malloc 2 1, E_strncpy 1 [104, 105], E_sys (Allow 0 1 1 2) 0,
                      E_sys (Subscribe 0 1 CB_putstr 1) 0, E_wait PUTSTR,
                      E_invoke CB_putstr 1, E_free 1, E_yield PUTSTR]\<rparr>"
  let ?d = "\<lparr>heap = [], brk = 0, heap_avail = 4096, subs = [((3, 0), CB_delay, 0)],
             pending = [],
             trace = [E_sys (Subscribe 3 0 CB_delay 0) 0, E_sys (Command 3 0 5) 0,
                      E_wait DELAY, E_invoke CB_delay 0, E_yield DELAY]\<rparr>"
  have p: "putnstr kernel_ok [104, 105] 2 (boot [Delivery 0 1 2 0 0, Delivery 3 0 0 0 0]) =
             Some (Inr ?p)"
    by (simp add: putnstr_def malloc_def strncpy_def strncpy_bytes_def putnstr_async_def
        allow_def subscribe_def wait_for_def putstr_cb_def free_def boot_def kernel_ok_def
        log_def Let_def)
  have d: "delay_ms kernel_ok 5 (boot [Delivery 3 0 0 0 0]) = Some (Inr ?d)"
    by (simp add: delay_ms_eq wait_for_def delay_cb_def boot_def kernel_ok_def log_def Let_def)
  from facade_driver_numbers
         [where K = kernel_ok and cs = "[104, 105]" and len = 2
            and s = "boot [Delivery 0 1 2 0 0, Delivery 3 0 0 0 0]" and ?s1.0 = ?p,
          THEN conjunct2, THEN conjunct1, THEN mp, OF p]
  have "drivers (trace ?p) = [0, 0]" by (simp add: boot_def)
  moreover
  from facade_driver_numbers
         [where K = kernel_ok and ms = 5 and s = "boot [Delivery 3 0 0 0 0]" and ?s2.0 = ?d,
          THEN conjunct2, THEN conjunct2, THEN conjunct2, THEN conjunct2, THEN conjunct2,
          THEN conjunct2, THEN conjunct1, THEN mp, OF d]
  have "drivers (trace ?d) = [3, 3]" by (simp add: boot_def)
  ultimately show ?thesis using p d q dq by simp
qed

section \<open>The blocking delay\<close>

text \<open>
  C7. For every interval, 0 included, \<open>delay_ms\<close> subscribes \<open>delay_cb\<close> to event 0 of
  the timer, triggers the one-shot timer with the interval and then waits for \<open>DELAY\<close>:
  up to the wait it changes nothing of the process but the registration and the trace,
  which gains these two system calls and no grant, so no buffer is allocated, granted
  or released; \<open>delay_cb\<close> changes nothing at all. When the kernel accepts the
  subscription and delivers the timer's upcall next, \<open>delay_ms\<close> returns, with the heap as
  it was.
\<close>

theorem delay_ms_composition:
  "delay_ms K ms s =
     (let r1 = K (trace s) (Subscribe 3 0 CB_delay 0);
          t1 = trace s @ [E_sys (Subscribe 3 0 CB_delay 0) r1];
          r2 = K t1 (Command 3 0 ms)
      in wait_for DELAY
           (s\<lparr>subs := (if r1 <s 0 then subs s
                        else ((3, 0), CB_delay, 0) # filter (\<lambda>e. fst e \<noteq> (3, 0)) (subs s)),
              trace := t1 @ [E_sys (Command 3 0 ms) r2]\<rparr>)) \<and>
   delay_cb s = Inr (DELAY, s) \<and>
   (\<not> K (trace s) (Subscribe 3 0 CB_delay 0) <s 0 \<and> pending s = Delivery 3 0 x y z # ds \<longrightarrow>
    delay_ms K ms s =
     (let r1 = K (trace s) (Subscribe 3 0 CB_delay 0);
          t1 = trace s @ [E_sys (Subscribe 3 0 CB_delay 0) r1];
          r2 = K t1 (Command 3 0 ms)
      in Some (Inr (s\<lparr>subs := ((3, 0), CB_delay, 0) # filter (\<lambda>e. fst e \<noteq> (3, 0)) (subs s),
                      pending := ds,
                      trace := t1 @ [E_sys (Command 3 0 ms) r2, E_wait DELAY,
                                     E_invoke CB_delay 0, E_yield DELAY]\<rparr>))))"
  using delay_ms_eq [of K ms s] delay_ms_fires [of K s x y z ds ms]
  by (simp add: delay_cb_def)

theorem delay_ms_composition_witness:
  "\<not> kernel_ok (trace (boot [Delivery 3 0 0 0 0])) (Subscribe 3 0 CB_delay 0) <s 0 \<and>
   pending (boot [Delivery 3 0 0 0 0]) = [Delivery 3 0 0 0 0] \<and>
   delay_ms kernel_ok 0 (boot [Delivery 3 0 0 0 0]) =
     Some (Inr \<lparr>heap = [], brk = 0, heap_avail = 4096, subs = [((3, 0), CB_delay, 0)],
                pending = [],
                trace = [E_sys (Subscribe 3 0 CB_delay 0) 0, E_sys (Command 3 0 0) 0,
                         E_wait DELAY, E_invoke CB_delay 0, E_yield DELAY]\<rparr>)"
proof -
  let ?s = "boot [Delivery 3 0 0 0 0]"
  have a: "\<not> kernel_ok (trace ?s) (Subscribe 3 0 CB_delay 0) <s 0 \<and>
           pending ?s = Delivery 3 0 0 0 0 # []"
    by (simp add: kernel_ok_def boot_def)
  from delay_ms_composition
         [where K = kernel_ok and ms = 0 and s = ?s and x = 0 and y = 0 and z = 0 and ds = "[]",
          THEN conjunct2, THEN conjunct2, THEN mp, OF a] a
  show ?thesis by (simp add: kernel_ok_def boot_def Let_def)
qed

section \<open>Operation numbers of the SPI facade\<close>

text \<open>
  C8. \<open>spi_read_buf\<close> grants the read buffer with operation 0 of driver 4.
  \<open>spi_write\<close> grants the write buffer with operation 1; if that succeeded it
  subscribes the callback; if that succeeded too it issues the command with operation 1
  and the transfer length as its argument.
\<close>

theorem spi_operation_numbers:
  "spi_read_buf K str len s =
     (let r = K (trace s) (Allow 4 0 str len)
      in (r, s\<lparr>trace := trace s @ [E_sys (Allow 4 0 str len) r]\<rparr>)) \<and>
   spi_write K str len cb s =
     (let r1 = K (trace s) (Allow 4 1 str len);
          t1 = trace s @ [E_sys (Allow 4 1 str len) r1];
          r2 = K t1 (Subscribe 4 0 cb 0);
          t2 = t1 @ [E_sys (Subscribe 4 0 cb 0) r2];
          r3 = K t2 (Command 4 1 len)
      in if r1 <s 0 then (r1, s\<lparr>trace := t1\<rparr>)
         else if r2 <s 0 then (r2, s\<lparr>trace := t2\<rparr>)
         else (r3, s\<lparr>subs := ((4, 0), cb, 0) # filter (\<lambda>e. fst e \<noteq> (4, 0)) (subs s),
                       trace := t2 @ [E_sys (Command 4 1 len) r3]\<rparr>))"
proof -
  have "spi_read_buf K str len s =
     (let r = K (trace s) (Allow 4 0 str len)
      in (r, s\<lparr>trace := trace s @ [E_sys (Allow 4 0 str len) r]\<rparr>))"
    by (simp add: spi_read_buf_def allow_def log_def Let_def)
  with spi_write_eq [of K str len cb s] show ?thesis by (intro conjI)
qed

section \<open>The serialization facade\<close>

text \<open>
  C10. \<open>nrf51822_serialization_write\<close> grants the TX buffer (driver 5, operation 1) and
  then always issues the transmit command (driver 5, operation 0, argument 0), whatever
  the grant returned. The three functions of the facade return no value: what they
  leave is the process state, in which the kernel's answers appear only in the trace
  and, for the subscription, in whether the callback got registered.
\<close>

theorem serialization_discards_status:
  "nrf51822_serialization_write K tx tx_len s =
     (let r1 = K (trace s) (Allow 5 1 tx tx_len);
          t1 = trace s @ [E_sys (Allow 5 1 tx tx_len) r1];
          r2 = K t1 (Command 5 0 0)
      in s\<lparr>trace := t1 @ [E_sys (Command 5 0 0) r2]\<rparr>) \<and>
   nrf51822_serialization_setup_rx_buffer K rx rx_len s =
     (let r = K (trace s) (Allow 5 0 rx rx_len)
      in s\<lparr>trace := trace s @ [E_sys (Allow 5 0 rx rx_len) r]\<rparr>) \<and>
   nrf51822_serialization_subscribe K cb s =
     (let r = K (trace s) (Subscribe 5 0 cb 0)
      in s\<lparr>subs := (if r <s 0 then subs s
                     else ((5, 0), cb, 0) # filter (\<lambda>e. fst e \<noteq> (5, 0)) (subs s)),
           trace := trace s @ [E_sys (Subscribe 5 0 cb 0) r]\<rparr>)"
  by (simp add: nrf51822_serialization_write_def nrf51822_serialization_setup_rx_buffer_def
      nrf51822_serialization_subscribe_def allow_def command_def subscribe_def log_def Let_def)

end
